theory Spec2Isabelle
  imports Complex_Main
begin

section \<open>Python values and exceptions\<close>

text \<open>
  The program \<^verbatim>\<open>pearsons.py\<close> polls a market-data provider for the closing prices of two
  instruments and prints their Pearson correlation. Everything the program does beyond
  computing values is written out: an exception is the \<open>Inl\<close> branch of a sum, the
  provider, the clock and the interruptible sleep are read from an environment, and the
  lines printed are collected in the world that every function passes on.

  Of Python's exception hierarchy the program distinguishes three kinds:
  \<^verbatim>\<open>KeyboardInterrupt\<close> (not a subclass of \<^verbatim>\<open>Exception\<close>), \<^verbatim>\<open>ImportError\<close>
  and every other subclass of \<^verbatim>\<open>Exception\<close>. The string is what \<^verbatim>\<open>str(e)\<close> gives.
\<close>

datatype py_exn = KeyboardInterrupt | ImportError string | Exception string

text \<open>\<^verbatim>\<open>except Exception\<close> catches everything but the interrupt.\<close>

fun is_Exception :: "py_exn \<Rightarrow> bool" where
  "is_Exception KeyboardInterrupt = False"
| "is_Exception (ImportError m) = True"
| "is_Exception (Exception m) = True"

fun is_ImportError :: "py_exn \<Rightarrow> bool" where
  "is_ImportError (ImportError m) = True"
| "is_ImportError e = False"

fun str_exn :: "py_exn \<Rightarrow> string" where
  "str_exn KeyboardInterrupt = []"
| "str_exn (ImportError m) = m"
| "str_exn (Exception m) = m"

text \<open>
  A double is a number or NaN. The model never computes with doubles: it stores them,
  tells NaN from a number, and takes the result of the one floating-point computation of
  the program, the correlation itself, from the environment.
\<close>

datatype pyfloat = Finite real | NaN

text \<open>
  A price series is the \<^verbatim>\<open>Close\<close> column of the provider's answer: closing prices
  indexed by timestamp, in the provider's order.
\<close>

type_synonym series = "(int \<times> pyfloat) list"

type_synonym frame = "string \<rightharpoonup> series"

text \<open>
  What \<^verbatim>\<open>calculate_correlation\<close> hands back: the float that \<^verbatim>\<open>corr\<close> computed, NaN
  included, or the error text. \<^verbatim>\<open>isinstance(correlation, float)\<close> holds for the first
  and not for the second.
\<close>

datatype pyval = Float pyfloat | Str string

section \<open>The environment and the world\<close>

text \<open>
  The environment answers the program's calls in the order they are made: the \<open>k\<close>-th
  call of \<^verbatim>\<open>yf.Ticker(symbol).history(period, interval)\<close>, which returns a frame or
  raises; the \<open>k\<close>-th reading of \<^verbatim>\<open>datetime.now()\<close>, in seconds; whether the \<open>k\<close>-th
  \<^verbatim>\<open>time.sleep\<close> is cut short by the operator's interrupt; and the \<open>k\<close>-th line typed
  at a prompt, or the exception that \<^verbatim>\<open>input\<close> raises. A call of the provider can
  itself be interrupted: then its answer is \<open>Inl KeyboardInterrupt\<close>.

  The environment also holds \<open>corrcoef\<close>: the double that numpy computes as the
  correlation coefficient of two columns of numbers with at least two rows. Its rounding
  and its overflow are not modelled, so nothing is assumed of its value: it can be any
  double, NaN included.
\<close>

record env =
  history :: "nat \<Rightarrow> string \<Rightarrow> string \<Rightarrow> string \<Rightarrow> py_exn + frame"
  now :: "nat \<Rightarrow> real"
  sleep_interrupted :: "nat \<Rightarrow> bool"
  stdin :: "nat \<Rightarrow> py_exn + string"
  corrcoef :: "pyfloat list \<Rightarrow> pyfloat list \<Rightarrow> pyfloat"

datatype line =
    NewDataUpdate real
  | CorrelationLine string string pyfloat
  | TimeframeLine string
  | PeriodLine string
  | PeriodAutomatic
  | ErrorAt real pyval
  | MonitoringStopped
  | UnexpectedErrorAt real string
  | Text string

record world =
  n_history :: nat
  n_now :: nat
  n_sleep :: nat
  n_input :: nat
  stdout :: "line list"

definition world0 :: world where
  "world0 = \<lparr>n_history = 0, n_now = 0, n_sleep = 0, n_input = 0, stdout = []\<rparr>"

definition print :: "line \<Rightarrow> world \<Rightarrow> world" where
  "print l w = w\<lparr>stdout := stdout w @ [l]\<rparr>"

definition datetime_now :: "env \<Rightarrow> world \<Rightarrow> real \<times> world" where
  "datetime_now E w = (now E (n_now w), w\<lparr>n_now := Suc (n_now w)\<rparr>)"

definition time_sleep :: "env \<Rightarrow> world \<Rightarrow> (py_exn + unit) \<times> world" where
  "time_sleep E w =
     ((if sleep_interrupted E (n_sleep w) then Inl KeyboardInterrupt else Inr ()),
      w\<lparr>n_sleep := Suc (n_sleep w)\<rparr>)"

text \<open>\<^verbatim>\<open>input(prompt)\<close> writes the prompt and reads a line.\<close>

definition input :: "env \<Rightarrow> string \<Rightarrow> world \<Rightarrow> (py_exn + string) \<times> world" where
  "input E prompt w = (stdin E (n_input w), (print (Text prompt) w)\<lparr>n_input := Suc (n_input w)\<rparr>)"

text \<open>
  \<^verbatim>\<open>str.strip\<close>, \<^verbatim>\<open>str.upper\<close> and \<^verbatim>\<open>str.lower\<close> as they act on lines of ASCII
  characters, which is what the lists of valid timeframes and periods are made of. On
  other characters Python does more (it strips the no-break space and maps accented
  letters); a line typed with such characters is outside the model.
\<close>

definition isspace :: "char \<Rightarrow> bool" where
  "isspace c = (let n = (of_char c :: nat) in (9 \<le> n \<and> n \<le> 13) \<or> (28 \<le> n \<and> n \<le> 32))"

definition strip :: "string \<Rightarrow> string" where
  "strip s = rev (dropWhile isspace (rev (dropWhile isspace s)))"

definition upper :: "string \<Rightarrow> string" where
  "upper s = map (\<lambda>c. let n = (of_char c :: nat) in
                       if 97 \<le> n \<and> n \<le> 122 then char_of (n - 32) else c) s"

definition lower :: "string \<Rightarrow> string" where
  "lower s = map (\<lambda>c. let n = (of_char c :: nat) in
                       if 65 \<le> n \<and> n \<le> 90 then char_of (n + 32) else c) s"

section \<open>\<^verbatim>\<open>get_stock_data\<close>\<close>

text \<open>The dictionary \<^verbatim>\<open>timeframe_mapping\<close>, built from the caller's period.\<close>

definition timeframe_mapping :: "string \<Rightarrow> (string \<times> string) list" where
  "timeframe_mapping period =
     [(''1m'', ''7d''),
      (''5m'', ''60d''),
      (''15m'', ''60d''),
      (''30m'', ''60d''),
      (''1h'', ''730d''),
      (''4h'', ''730d''),
      (''1d'', period),
      (''1wk'', period),
      (''1mo'', period)]"

text \<open>\<^verbatim>\<open>timeframe_mapping.get(timeframe, '1y')\<close>\<close>

definition selected_period :: "string \<Rightarrow> string \<Rightarrow> string" where
  "selected_period timeframe period =
     (case map_of (timeframe_mapping period) timeframe of
        None \<Rightarrow> ''1y''
      | Some p \<Rightarrow> p)"

text \<open>
  \<^verbatim>\<open>data['Close']\<close> raises \<^verbatim>\<open>KeyError\<close> when the frame has no such column;
  \<^verbatim>\<open>str\<close> of that error is the key in quotes.
\<close>

definition getitem_Close :: "frame \<Rightarrow> py_exn + series" where
  "getitem_Close data =
     (case data ''Close'' of
        None \<Rightarrow> Inl (Exception [CHR 0x27, CHR ''C'', CHR ''l'', CHR ''o'', CHR ''s'', CHR ''e'', CHR 0x27])
      | Some s \<Rightarrow> Inr s)"

definition get_stock_data ::
  "env \<Rightarrow> string \<Rightarrow> string \<Rightarrow> string \<Rightarrow> world \<Rightarrow> (py_exn + series) \<times> world" where
  "get_stock_data E symbol timeframe period w =
     (let selected = selected_period timeframe period;
          w1 = w\<lparr>n_history := Suc (n_history w)\<rparr>
      in case history E (n_history w) symbol selected timeframe of
           Inl e \<Rightarrow> (Inl e, w1)
         | Inr data \<Rightarrow> (getitem_Close data, w1))"

section \<open>\<^verbatim>\<open>calculate_correlation\<close>\<close>

text \<open>
  \<^verbatim>\<open>pd.concat([stock1_data, stock2_data], axis=1, join='inner')\<close> keeps the timestamps
  that both series have, in the order of the first series, each with the two prices. A
  provider's series has no timestamp twice; for one that has, pandas cannot reindex and
  raises, and the model raises for every such series.
\<close>

definition concat_inner :: "series \<Rightarrow> series \<Rightarrow> py_exn + (int \<times> pyfloat \<times> pyfloat) list" where
  "concat_inner a b =
     (if distinct (map fst a) \<and> distinct (map fst b)
      then Inr (concat (map (\<lambda>(t, x). case map_of b t of None \<Rightarrow> [] | Some y \<Rightarrow> [(t, x, y)]) a))
      else Inl (Exception ''cannot reindex on an axis with duplicate labels''))"

text \<open>
  \<^verbatim>\<open>Series.corr(other, method='pearson')\<close> on two columns of equal length. Pandas drops
  every row in which either price is NaN. With no row left it returns NaN; with one row
  left numpy divides zero by zero, which is NaN again; pandas does not raise. With two
  rows or more the result is what numpy computes in doubles.
\<close>

definition notna :: "pyfloat \<Rightarrow> bool" where
  "notna x = (x \<noteq> NaN)"

definition Series_corr :: "env \<Rightarrow> pyfloat list \<Rightarrow> pyfloat list \<Rightarrow> pyfloat" where
  "Series_corr E xs ys =
     (let valid = filter (\<lambda>(x, y). notna x \<and> notna y) (zip xs ys)
      in if length valid < 2 then NaN
         else corrcoef E (map fst valid) (map snd valid))"

text \<open>
  \<^verbatim>\<open>combined_data.columns = [symbol1, symbol2]\<close> names both columns. When the two
  symbols are equal the frame has two columns of one name, \<^verbatim>\<open>combined_data[symbol1]\<close> is
  then a frame and not a column, and \<^verbatim>\<open>DataFrame.corr\<close>, whose first parameter is
  \<^verbatim>\<open>method\<close>, is given \<^verbatim>\<open>method\<close> twice: a \<^verbatim>\<open>TypeError\<close>.
\<close>

definition TypeError_corr :: py_exn where
  "TypeError_corr =
     Exception (''DataFrame.corr() got multiple values for argument ''
                @ [CHR 0x27] @ ''method'' @ [CHR 0x27])"

definition column1 :: "(int \<times> pyfloat \<times> pyfloat) list \<Rightarrow> pyfloat list" where
  "column1 combined_data = map (\<lambda>(t, x, y). x) combined_data"

definition column2 :: "(int \<times> pyfloat \<times> pyfloat) list \<Rightarrow> pyfloat list" where
  "column2 combined_data = map (\<lambda>(t, x, y). y) combined_data"

definition corr_columns ::
  "env \<Rightarrow> string \<Rightarrow> string \<Rightarrow> (int \<times> pyfloat \<times> pyfloat) list \<Rightarrow> py_exn + pyfloat" where
  "corr_columns E symbol1 symbol2 combined_data =
     (if symbol1 = symbol2 then Inl TypeError_corr
      else Inr (Series_corr E (column1 combined_data) (column2 combined_data)))"

text \<open>
  The handler \<^verbatim>\<open>except Exception as e: return f"Error: {str(e)}"\<close>; an exception that
  is not an \<^verbatim>\<open>Exception\<close> goes on to the caller.
\<close>

definition except_Exception :: "py_exn \<Rightarrow> py_exn + pyval" where
  "except_Exception e = (if is_Exception e then Inr (Str (''Error: '' @ str_exn e)) else Inl e)"

definition calculate_correlation ::
  "env \<Rightarrow> string \<Rightarrow> string \<Rightarrow> string \<Rightarrow> string \<Rightarrow> world \<Rightarrow> (py_exn + pyval) \<times> world" where
  "calculate_correlation E symbol1 symbol2 timeframe period w =
     (case get_stock_data E symbol1 timeframe period w of
        (Inl e, w1) \<Rightarrow> (except_Exception e, w1)
      | (Inr stock1_data, w1) \<Rightarrow>
          (case get_stock_data E symbol2 timeframe period w1 of
             (Inl e, w2) \<Rightarrow> (except_Exception e, w2)
           | (Inr stock2_data, w2) \<Rightarrow>
               (case concat_inner stock1_data stock2_data of
                  Inl e \<Rightarrow> (except_Exception e, w2)
                | Inr combined_data \<Rightarrow>
                    (case corr_columns E symbol1 symbol2 combined_data of
                       Inl e \<Rightarrow> (except_Exception e, w2)
                     | Inr correlation \<Rightarrow> (Inr (Float correlation), w2)))))"

section \<open>\<^verbatim>\<open>continuous_monitor\<close>\<close>

record monitor_state =
  last_update :: "real option"
  last_data_count :: "nat option"

definition monitor_state0 :: monitor_state where
  "monitor_state0 = \<lparr>last_update = None, last_data_count = None\<rparr>"

text \<open>The condition of the \<^verbatim>\<open>if\<close> on lines 64 to 66; times are in seconds.\<close>

definition should_report :: "monitor_state \<Rightarrow> real \<Rightarrow> nat \<Rightarrow> bool" where
  "should_report st current_time current_count =
     ((case last_update st of None \<Rightarrow> True | Some lu \<Rightarrow> current_time - lu \<ge> 60)
      \<and> (case last_data_count st of None \<Rightarrow> True | Some c \<Rightarrow> current_count > c))"

text \<open>The body of that \<^verbatim>\<open>if\<close>: lines 68 to 84.\<close>

definition report ::
  "env \<Rightarrow> string \<Rightarrow> string \<Rightarrow> string \<Rightarrow> string \<Rightarrow> real \<Rightarrow> nat \<Rightarrow> monitor_state \<Rightarrow> world
     \<Rightarrow> (py_exn + unit) \<times> monitor_state \<times> world" where
  "report E symbol1 symbol2 timeframe period current_time current_count st w =
     (case calculate_correlation E symbol1 symbol2 timeframe period w of
        (Inl e, w1) \<Rightarrow> (Inl e, st, w1)
      | (Inr correlation, w1) \<Rightarrow>
          (case correlation of
             Float f \<Rightarrow>
               (let w2 = print (NewDataUpdate current_time) w1;
                    w3 = print (CorrelationLine symbol1 symbol2 f) w2;
                    w4 = print (TimeframeLine timeframe) w3;
                    w5 = (if timeframe \<in> set [''1d'', ''1wk'', ''1mo'']
                          then print (PeriodLine period) w4
                          else print PeriodAutomatic w4)
                in (Inr (),
                    \<lparr>last_update = Some current_time, last_data_count = Some current_count\<rparr>,
                    w5))
           | Str s \<Rightarrow> (Inr (), st, print (ErrorAt current_time correlation) w1)))"

text \<open>The body of the \<^verbatim>\<open>try\<close>: lines 57 to 87.\<close>

definition try_body ::
  "env \<Rightarrow> string \<Rightarrow> string \<Rightarrow> string \<Rightarrow> string \<Rightarrow> monitor_state \<Rightarrow> world
     \<Rightarrow> (py_exn + unit) \<times> monitor_state \<times> world" where
  "try_body E symbol1 symbol2 timeframe period st w =
     (case get_stock_data E symbol1 timeframe period w of
        (Inl e, w1) \<Rightarrow> (Inl e, st, w1)
      | (Inr stock1_data, w1) \<Rightarrow>
          (let current_count = length stock1_data;
               (current_time, w2) = datetime_now E w1
           in case (if should_report st current_time current_count
                    then report E symbol1 symbol2 timeframe period current_time current_count st w2
                    else (Inr (), st, w2)) of
                (Inl e, st', w3) \<Rightarrow> (Inl e, st', w3)
              | (Inr u, st', w3) \<Rightarrow> (case time_sleep E w3 of (r, w4) \<Rightarrow> (r, st', w4))))"

text \<open>
  One turn of \<^verbatim>\<open>while True\<close>: the \<^verbatim>\<open>try\<close> with its two handlers. An exception raised
  inside a handler is not caught by the other handler of the same \<^verbatim>\<open>try\<close>: it leaves
  the loop.
\<close>

datatype control = Continue | Break

definition iteration ::
  "env \<Rightarrow> string \<Rightarrow> string \<Rightarrow> string \<Rightarrow> string \<Rightarrow> monitor_state \<Rightarrow> world
     \<Rightarrow> (py_exn + control) \<times> monitor_state \<times> world" where
  "iteration E symbol1 symbol2 timeframe period st w =
     (case try_body E symbol1 symbol2 timeframe period st w of
        (Inr u, st', w') \<Rightarrow> (Inr Continue, st', w')
      | (Inl e, st', w') \<Rightarrow>
          (if e = KeyboardInterrupt
           then (Inr Break, st', print MonitoringStopped w')
           else if is_Exception e
           then (let (t, w1) = datetime_now E w';
                     w2 = print (UnexpectedErrorAt t (str_exn e)) w1
                 in case time_sleep E w2 of
                      (Inl e', w3) \<Rightarrow> (Inl e', st', w3)
                    | (Inr u, w3) \<Rightarrow> (Inr Continue, st', w3))
           else (Inl e, st', w')))"

text \<open>
  The loop runs until it is stopped, so the model counts turns: the result \<open>None\<close> says
  that the loop is still running after \<open>fuel\<close> turns, \<open>Some (Inr ())\<close> that it was left by
  \<^verbatim>\<open>break\<close>, \<open>Some (Inl e)\<close> that \<open>e\<close> was raised out of it.
\<close>

fun monitor_loop ::
  "nat \<Rightarrow> env \<Rightarrow> string \<Rightarrow> string \<Rightarrow> string \<Rightarrow> string \<Rightarrow> monitor_state \<Rightarrow> world
     \<Rightarrow> (py_exn + unit) option \<times> monitor_state \<times> world" where
  "monitor_loop 0 E symbol1 symbol2 timeframe period st w = (None, st, w)"
| "monitor_loop (Suc fuel) E symbol1 symbol2 timeframe period st w =
     (case iteration E symbol1 symbol2 timeframe period st w of
        (Inl e, st', w') \<Rightarrow> (Some (Inl e), st', w')
      | (Inr Break, st', w') \<Rightarrow> (Some (Inr ()), st', w')
      | (Inr Continue, st', w') \<Rightarrow> monitor_loop fuel E symbol1 symbol2 timeframe period st' w')"

definition continuous_monitor ::
  "nat \<Rightarrow> env \<Rightarrow> string \<Rightarrow> string \<Rightarrow> string \<Rightarrow> string \<Rightarrow> world
     \<Rightarrow> (py_exn + unit) option \<times> monitor_state \<times> world" where
  "continuous_monitor fuel E symbol1 symbol2 timeframe period w =
     monitor_loop fuel E symbol1 symbol2 timeframe period monitor_state0 w"

section \<open>\<^verbatim>\<open>main\<close> and the script\<close>

definition valid_timeframes :: "string list" where
  "valid_timeframes = [''1m'', ''5m'', ''15m'', ''30m'', ''1h'', ''4h'', ''1d'', ''1wk'', ''1mo'']"

definition valid_periods :: "string list" where
  "valid_periods =
     [''1d'', ''5d'', ''1mo'', ''3mo'', ''6mo'', ''1y'', ''2y'', ''5y'', ''10y'', ''ytd'', ''max'']"

definition quoted :: "string \<Rightarrow> string" where
  "quoted s = [CHR 0x27] @ s @ [CHR 0x27]"

text \<open>Lines 115 to 123: the period is asked for only at the three coarse timeframes.\<close>

definition read_period :: "env \<Rightarrow> string \<Rightarrow> world \<Rightarrow> (py_exn + string) \<times> world" where
  "read_period E timeframe w =
     (if timeframe \<in> set [''1d'', ''1wk'', ''1mo'']
      then (let w1 = print (Text (CHR 0x0A # ''Available periods: 1d, 5d, 1mo, 3mo, 6mo, 1y, 2y, 5y, 10y, ytd, max'')) w
            in case input E ''Enter period (default is 1y): '' w1 of
                 (Inl e, w2) \<Rightarrow> (Inl e, w2)
               | (Inr l, w2) \<Rightarrow>
                   (let period = (if lower (strip l) = [] then ''1y'' else lower (strip l))
                    in if period \<notin> set valid_periods
                       then (Inr ''1y'',
                             print (Text (''Invalid period. Using default '' @ quoted ''1y'')) w2)
                       else (Inr period, w2)))
      else (Inr ''1y'', w))"

definition main :: "nat \<Rightarrow> env \<Rightarrow> world \<Rightarrow> (py_exn + unit) option \<times> world" where
  "main fuel E w =
     (let w1 = print (Text ''Stock Correlation Calculator - Continuous Monitoring'') w;
          w2 = print (Text ''Enter stock symbols in uppercase (e.g., AAPL for Apple)'') w1
      in case input E ''Enter first stock symbol: '' w2 of
           (Inl e, w3) \<Rightarrow> (Some (Inl e), w3)
         | (Inr l1, w3) \<Rightarrow>
        (let symbol1 = upper (strip l1)
         in case input E ''Enter second stock symbol: '' w3 of
              (Inl e, w4) \<Rightarrow> (Some (Inl e), w4)
            | (Inr l2, w4) \<Rightarrow>
        (let symbol2 = upper (strip l2);
             w5 = print (Text (CHR 0x0A # ''Available timeframes: 1m, 5m, 15m, 30m, 1h, 4h, 1d, 1wk, 1mo'')) w4
         in case input E ''Enter timeframe (default is 1d): '' w5 of
              (Inl e, w6) \<Rightarrow> (Some (Inl e), w6)
            | (Inr l3, w6) \<Rightarrow>
        (let entered = (if lower (strip l3) = [] then ''1d'' else lower (strip l3));
             (timeframe, w7) =
               (if entered \<notin> set valid_timeframes
                then (''1d'', print (Text (''Invalid timeframe. Using default '' @ quoted ''1d'')) w6)
                else (entered, w6))
         in case read_period E timeframe w7 of
              (Inl e, w8) \<Rightarrow> (Some (Inl e), w8)
            | (Inr period, w8) \<Rightarrow>
        (let w9 = print (Text (CHR 0x0A # ''Starting continuous monitoring... (Press Ctrl+C to stop)'')) w8;
             w10 = print (Text ''Updates will occur every minute when new data is available'') w9
         in case continuous_monitor fuel E symbol1 symbol2 timeframe period w10 of
              (r, st, w11) \<Rightarrow> (r, w11))))))"

text \<open>
  The script from its first line. The six \<^verbatim>\<open>import\<close> statements of lines 1 to 6 run
  before anything else: a module that is not installed raises \<^verbatim>\<open>ImportError\<close> there,
  outside every \<^verbatim>\<open>try\<close>, and the interpreter ends with a traceback. Only then comes the
  guarded block of lines 129 to 135. The process ends with status 0 when the script runs
  to its end and with a traceback and a status other than 0 on an uncaught exception;
  \<open>None\<close> again says that the loop is still running.
\<close>

datatype exit_status = Exit0 | Traceback py_exn

definition import_module :: "(string \<Rightarrow> bool) \<Rightarrow> string \<Rightarrow> py_exn + unit" where
  "import_module installed m =
     (if installed m then Inr () else Inl (ImportError (''No module named '' @ quoted m)))"

definition guarded_main ::
  "(string \<Rightarrow> bool) \<Rightarrow> nat \<Rightarrow> env \<Rightarrow> world \<Rightarrow> exit_status option \<times> world" where
  "guarded_main installed fuel E w =
     (let (r, w1) = (case import_module installed ''yfinance'' of
                       Inl e \<Rightarrow> (Some (Inl e), w)
                     | Inr u \<Rightarrow> main fuel E w)
      in case r of
           None \<Rightarrow> (None, w1)
         | Some (Inr u) \<Rightarrow> (Some Exit0, w1)
         | Some (Inl e) \<Rightarrow>
             (if is_ImportError e
              then (Some Exit0,
                    print (Text ''Run: pip install yfinance'')
                      (print (Text ''Error: Please install yfinance first'') w1))
              else (Some (Traceback e), w1)))"

definition script :: "(string \<Rightarrow> bool) \<Rightarrow> nat \<Rightarrow> env \<Rightarrow> exit_status option \<times> world" where
  "script installed fuel E =
     (case find (\<lambda>m. \<not> installed m) [''yfinance'', ''pandas'', ''numpy'', ''datetime'', ''time'', ''sys''] of
        Some m \<Rightarrow> (Some (Traceback (ImportError (''No module named '' @ quoted m))), world0)
      | None \<Rightarrow> guarded_main installed fuel E world0)"

section \<open>Environments for concrete runs\<close>

text \<open>A provider's answer with the one column the program reads.\<close>

definition Close_frame :: "series \<Rightarrow> frame" where
  "Close_frame s = Map.empty(''Close'' \<mapsto> s)"

text \<open>
  A provider that answers by symbol alone, a clock that advances 100 seconds between
  readings, no interrupt, empty lines at the prompts, and a coefficient of one half
  for every two columns.
\<close>

definition env_of :: "(string \<Rightarrow> py_exn + frame) \<Rightarrow> env" where
  "env_of answer =
     \<lparr>history = (\<lambda>k symbol period interval. answer symbol),
      now = (\<lambda>k. 100 * real k),
      sleep_interrupted = (\<lambda>k. False),
      stdin = (\<lambda>k. Inr []),
      corrcoef = (\<lambda>xs ys. Finite (1 / 2))\<rparr>"

definition answer_empty :: "string \<Rightarrow> py_exn + frame" where
  "answer_empty symbol = Inr (Close_frame [])"

definition answer_network_down :: "string \<Rightarrow> py_exn + frame" where
  "answer_network_down symbol = Inl (Exception ''network unreachable'')"

definition answer_disjoint :: "string \<Rightarrow> py_exn + frame" where
  "answer_disjoint symbol =
     (if symbol = ''AAA'' then Inr (Close_frame [(1, Finite 10)])
      else Inr (Close_frame [(2, Finite 20)]))"

definition answer_second_fails :: "string \<Rightarrow> py_exn + frame" where
  "answer_second_fails symbol =
     (if symbol = ''AAA'' then Inr (Close_frame [(1, Finite 10)])
      else Inl (Exception ''network unreachable''))"

definition answer_three :: "string \<Rightarrow> py_exn + frame" where
  "answer_three symbol =
     Inr (Close_frame [(1, Finite 10), (2, Finite 11), (3, Finite 13)])"

text \<open>Two symbols that share one timestamp, and two that share two.\<close>

definition answer_one_shared :: "string \<Rightarrow> py_exn + frame" where
  "answer_one_shared symbol =
     (if symbol = ''AAA'' then Inr (Close_frame [(1, Finite 10), (2, Finite 11)])
      else Inr (Close_frame [(2, Finite 20), (3, Finite 21)]))"

definition answer_two_shared :: "string \<Rightarrow> py_exn + frame" where
  "answer_two_shared symbol =
     (if symbol = ''AAA'' then Inr (Close_frame [(1, Finite 10), (2, Finite 11)])
      else Inr (Close_frame [(1, Finite 20), (2, Finite 22)]))"

text \<open>
  A run in which the provider is unreachable and the operator presses Ctrl+C while the
  program waits to retry; the operator has typed two symbols and two empty lines.
\<close>

definition env_interrupted_retry :: env where
  "env_interrupted_retry =
     \<lparr>history = (\<lambda>k symbol period interval. Inl (Exception ''network unreachable'')),
      now = (\<lambda>k. 100 * real k),
      sleep_interrupted = (\<lambda>k. True),
      stdin = (\<lambda>k. Inr (if k = 0 then ''aaa'' else if k = 1 then ''bbb'' else [])),
      corrcoef = (\<lambda>xs ys. Finite (1 / 2))\<rparr>"

definition all_installed :: "string \<Rightarrow> bool" where
  "all_installed m = True"

definition yfinance_missing :: "string \<Rightarrow> bool" where
  "yfinance_missing m = (m \<noteq> ''yfinance'')"

section \<open>Shorthands of the proofs\<close>

text \<open>
  The world once the first fetch of a turn has answered and the clock has been read, and
  the end of a turn whose \<^verbatim>\<open>try\<close> body reached \<^verbatim>\<open>time.sleep(5)\<close> on line 87, where an
  interrupt of the sleep is caught by the first handler.
\<close>

definition after_fetch :: "world \<Rightarrow> world" where
  "after_fetch w = w\<lparr>n_history := Suc (n_history w), n_now := Suc (n_now w)\<rparr>"

definition finish :: "env \<Rightarrow> monitor_state \<Rightarrow> world \<Rightarrow> (py_exn + control) \<times> monitor_state \<times> world" where
  "finish E st w =
     (if sleep_interrupted E (n_sleep w)
      then (Inr Break, st, w\<lparr>n_sleep := Suc (n_sleep w), stdout := stdout w @ [MonitoringStopped]\<rparr>)
      else (Inr Continue, st, w\<lparr>n_sleep := Suc (n_sleep w)\<rparr>))"

text \<open>The two variables of the monitor are set together or not at all.\<close>

definition both_or_neither :: "monitor_state \<Rightarrow> bool" where
  "both_or_neither st = ((last_update st = None) = (last_data_count st = None))"

section \<open>Properties of \<^verbatim>\<open>get_stock_data\<close>\<close>

text \<open>
  C2. Whatever period the caller passes, the provider is asked for 7d at interval 1m,
  for 60d at 5m, 15m and 30m, and for 730d at 1h and 4h; at 1d, 1wk and 1mo it is asked for
  the caller's period. The call made by \<^verbatim>\<open>get_stock_data\<close> is the one with the selected
  period, so a 5-minute interval with period 10y asks the provider for 60d.
\<close>

theorem get_stock_data_period:
  "selected_period ''1m'' period = ''7d''
   \<and> selected_period ''5m'' period = ''60d''
   \<and> selected_period ''15m'' period = ''60d''
   \<and> selected_period ''30m'' period = ''60d''
   \<and> selected_period ''1h'' period = ''730d''
   \<and> selected_period ''4h'' period = ''730d''
   \<and> selected_period ''1d'' period = period
   \<and> selected_period ''1wk'' period = period
   \<and> selected_period ''1mo'' period = period
   \<and> fst (get_stock_data E symbol timeframe period w)
       = (case history E (n_history w) symbol (selected_period timeframe period) timeframe of
            Inl e \<Rightarrow> Inl e | Inr data \<Rightarrow> getitem_Close data)
   \<and> fst (get_stock_data E symbol ''5m'' ''10y'' w)
       = (case history E (n_history w) symbol ''60d'' ''5m'' of
            Inl e \<Rightarrow> Inl e | Inr data \<Rightarrow> getitem_Close data)"
  by (simp add: selected_period_def timeframe_mapping_def get_stock_data_def Let_def
           split: sum.splits)

text \<open>
  C7, as the claim states it, fails: a provider that answers with an empty \<^verbatim>\<open>Close\<close>
  column makes \<^verbatim>\<open>get_stock_data\<close> return the empty series; nothing is raised.
\<close>

theorem get_stock_data_empty_counterexample:
  "fst (get_stock_data (env_of answer_empty) ''ZZZZINVALID'' ''1d'' ''1y'' world0) = Inr []"
  by (simp add: get_stock_data_def env_of_def answer_empty_def Close_frame_def getitem_Close_def
        world0_def Let_def)

text \<open>
  C7, amended. \<^verbatim>\<open>get_stock_data\<close> fails exactly when the provider raises or its answer
  has no \<^verbatim>\<open>Close\<close> column; an exception of the provider reaches the caller unchanged; and
  whenever the answer has a \<^verbatim>\<open>Close\<close> column, that column is returned as it is, the
  empty one too.
\<close>

theorem get_stock_data_fails_iff:
  "((\<exists>e. fst (get_stock_data E symbol timeframe period w) = Inl e)
      \<longleftrightarrow> (\<exists>e. history E (n_history w) symbol (selected_period timeframe period) timeframe = Inl e)
          \<or> (\<exists>data. history E (n_history w) symbol (selected_period timeframe period) timeframe = Inr data
                \<and> data ''Close'' = None))
   \<and> (\<forall>e. history E (n_history w) symbol (selected_period timeframe period) timeframe = Inl e
          \<longrightarrow> fst (get_stock_data E symbol timeframe period w) = Inl e)
   \<and> (\<forall>data s. history E (n_history w) symbol (selected_period timeframe period) timeframe = Inr data
          \<and> data ''Close'' = Some s
          \<longrightarrow> fst (get_stock_data E symbol timeframe period w) = Inr s)"
  by (auto simp: get_stock_data_def getitem_Close_def Let_def split: sum.splits option.splits)

theorem get_stock_data_fails_iff_witness:
  "fst (get_stock_data (env_of answer_network_down) ''AAPL'' ''5m'' ''10y'' world0)
     = Inl (Exception ''network unreachable'')"
  using get_stock_data_fails_iff [of "env_of answer_network_down" "''AAPL''" "''5m''" "''10y''" world0]
  by (simp add: env_of_def answer_network_down_def)

section \<open>Properties of \<^verbatim>\<open>calculate_correlation\<close>\<close>

lemma get_stock_data_world:
  "snd (get_stock_data E symbol timeframe period w) = w\<lparr>n_history := Suc (n_history w)\<rparr>"
  by (simp add: get_stock_data_def Let_def split: sum.splits)

lemma is_Exception_iff: "is_Exception e \<longleftrightarrow> e \<noteq> KeyboardInterrupt"
  by (cases e) simp_all

lemma except_Exception_cases:
  "except_Exception e = (if e = KeyboardInterrupt then Inl KeyboardInterrupt
                         else Inr (Str (''Error: '' @ str_exn e)))"
  by (cases e) (simp_all add: except_Exception_def)

lemma concat_inner_not_interrupt: "concat_inner a b \<noteq> Inl KeyboardInterrupt"
  by (simp add: concat_inner_def)

lemma corr_columns_not_interrupt: "corr_columns E symbol1 symbol2 c \<noteq> Inl KeyboardInterrupt"
  by (simp add: corr_columns_def TypeError_corr_def)

text \<open>
  C5. Whatever the provider does, the only exception that leaves
  \<^verbatim>\<open>calculate_correlation\<close> is the operator's \<^verbatim>\<open>KeyboardInterrupt\<close>, which is no
  \<^verbatim>\<open>Exception\<close>: a failure of the first fetch, of the second fetch or of the alignment is
  returned as the text \<^verbatim>\<open>Error: \<close> followed by the failure's description, and when no
  call of the provider is interrupted the function returns a value.
\<close>

theorem calculate_correlation_catches:
  "(\<forall>e. fst (calculate_correlation E symbol1 symbol2 timeframe period w) = Inl e
        \<longrightarrow> e = KeyboardInterrupt)
   \<and> (\<forall>e. fst (get_stock_data E symbol1 timeframe period w) = Inl e \<and> is_Exception e
        \<longrightarrow> fst (calculate_correlation E symbol1 symbol2 timeframe period w)
              = Inr (Str (''Error: '' @ str_exn e)))
   \<and> (\<forall>s e. fst (get_stock_data E symbol1 timeframe period w) = Inr s
          \<and> fst (get_stock_data E symbol2 timeframe period (w\<lparr>n_history := Suc (n_history w)\<rparr>)) = Inl e
          \<and> is_Exception e
        \<longrightarrow> fst (calculate_correlation E symbol1 symbol2 timeframe period w)
              = Inr (Str (''Error: '' @ str_exn e)))
   \<and> (\<forall>a b e. fst (get_stock_data E symbol1 timeframe period w) = Inr a
          \<and> fst (get_stock_data E symbol2 timeframe period (w\<lparr>n_history := Suc (n_history w)\<rparr>)) = Inr b
          \<and> concat_inner a b = Inl e
        \<longrightarrow> fst (calculate_correlation E symbol1 symbol2 timeframe period w)
              = Inr (Str (''Error: '' @ str_exn e)))
   \<and> ((\<forall>k s p i. history E k s p i \<noteq> Inl KeyboardInterrupt)
        \<longrightarrow> (\<exists>v. fst (calculate_correlation E symbol1 symbol2 timeframe period w) = Inr v))"
proof -
  let ?r = "calculate_correlation E symbol1 symbol2 timeframe period w"
  let ?w1 = "w\<lparr>n_history := Suc (n_history w)\<rparr>"
  obtain r1 where g1: "get_stock_data E symbol1 timeframe period w = (r1, ?w1)"
    using get_stock_data_world [of E symbol1 timeframe period w] by (metis prod.collapse)
  obtain r2 where g2: "get_stock_data E symbol2 timeframe period ?w1 = (r2, ?w1\<lparr>n_history := Suc (n_history ?w1)\<rparr>)"
    using get_stock_data_world [of E symbol2 timeframe period ?w1] by (metis prod.collapse)
  have c1: "\<forall>e. fst ?r = Inl e \<longrightarrow> e = KeyboardInterrupt"
    by (auto simp: calculate_correlation_def g1 g2 except_Exception_cases
             split: sum.splits if_splits)
  have c2: "\<forall>e. r1 = Inl e \<and> is_Exception e
               \<longrightarrow> fst ?r = Inr (Str (''Error: '' @ str_exn e))"
    by (auto simp: calculate_correlation_def g1 except_Exception_def)
  have c3: "\<forall>s e. r1 = Inr s \<and> r2 = Inl e \<and> is_Exception e
               \<longrightarrow> fst ?r = Inr (Str (''Error: '' @ str_exn e))"
    by (auto simp: calculate_correlation_def g1 g2 except_Exception_def)
  have c4: "\<forall>a b e. r1 = Inr a \<and> r2 = Inr b \<and> concat_inner a b = Inl e
               \<longrightarrow> fst ?r = Inr (Str (''Error: '' @ str_exn e))"
    by (auto simp: calculate_correlation_def g1 g2 except_Exception_def concat_inner_def
             split: if_splits)
  have k1: "(\<forall>k s p i. history E k s p i \<noteq> Inl KeyboardInterrupt) \<Longrightarrow> r1 \<noteq> Inl KeyboardInterrupt"
    using g1 by (auto simp: get_stock_data_def getitem_Close_def Let_def split: sum.splits option.splits)
  have k2: "(\<forall>k s p i. history E k s p i \<noteq> Inl KeyboardInterrupt) \<Longrightarrow> r2 \<noteq> Inl KeyboardInterrupt"
    using g2 by (auto simp: get_stock_data_def getitem_Close_def Let_def split: sum.splits option.splits)
  have c5: "(\<forall>k s p i. history E k s p i \<noteq> Inl KeyboardInterrupt) \<longrightarrow> (\<exists>v. fst ?r = Inr v)"
    using k1 k2
    by (auto simp: calculate_correlation_def g1 g2 except_Exception_cases
                   concat_inner_not_interrupt corr_columns_not_interrupt
             split: sum.splits if_splits)
  show ?thesis using c1 c2 c3 c4 c5 by (simp add: g1 g2)
qed

theorem calculate_correlation_catches_witness:
  "fst (calculate_correlation (env_of answer_network_down) ''AAPL'' ''MSFT'' ''1d'' ''1y'' world0)
     = Inr (Str ''Error: network unreachable'')"
proof -
  have "fst (get_stock_data (env_of answer_network_down) ''AAPL'' ''1d'' ''1y'' world0)
          = Inl (Exception ''network unreachable'')"
    by (simp add: get_stock_data_def env_of_def answer_network_down_def Let_def)
  then show ?thesis
    using calculate_correlation_catches
            [of "env_of answer_network_down" "''AAPL''" "''MSFT''" "''1d''" "''1y''" world0]
    by simp
qed

lemma get_stock_data_pair:
  "get_stock_data E symbol timeframe period w
     = (fst (get_stock_data E symbol timeframe period w), w\<lparr>n_history := Suc (n_history w)\<rparr>)"
  using get_stock_data_world [of E symbol timeframe period w] by (metis prod.collapse)

lemma calculate_correlation_float:
  assumes "fst (get_stock_data E symbol1 timeframe period w) = Inr a"
    and "fst (get_stock_data E symbol2 timeframe period (w\<lparr>n_history := Suc (n_history w)\<rparr>)) = Inr b"
    and "concat_inner a b = Inr c"
    and "symbol1 \<noteq> symbol2"
  shows "calculate_correlation E symbol1 symbol2 timeframe period w
           = (Inr (Float (Series_corr E (column1 c) (column2 c))),
              w\<lparr>n_history := Suc (Suc (n_history w))\<rparr>)"
proof -
  have g1: "get_stock_data E symbol1 timeframe period w = (Inr a, w\<lparr>n_history := Suc (n_history w)\<rparr>)"
    using assms(1) get_stock_data_pair [of E symbol1 timeframe period w] by simp
  have g2: "get_stock_data E symbol2 timeframe period (w\<lparr>n_history := Suc (n_history w)\<rparr>)
              = (Inr b, w\<lparr>n_history := Suc (Suc (n_history w))\<rparr>)"
    using assms(2) get_stock_data_pair [of E symbol2 timeframe period "w\<lparr>n_history := Suc (n_history w)\<rparr>"]
    by simp
  show ?thesis
    by (simp add: calculate_correlation_def g1 g2 assms(3,4) corr_columns_def)
qed

lemma Series_corr_short: "length xs < 2 \<Longrightarrow> Series_corr E xs ys = NaN"
proof -
  assume short: "length xs < 2"
  have "length (filter (\<lambda>(x, y). notna x \<and> notna y) (zip xs ys)) \<le> length (zip xs ys)"
    by (rule length_filter_le)
  also have "\<dots> \<le> length xs" by simp
  finally show ?thesis using short by (simp add: Series_corr_def Let_def)
qed

text \<open>
  C1, as the claim states it, fails: two series with no common timestamp align to no rows,
  and the first turn of the monitor prints a report whose coefficient is NaN, prints no
  error line, and stores the time and the count.
\<close>

theorem nan_reported_counterexample:
  "iteration (env_of answer_disjoint) ''AAA'' ''BBB'' ''1d'' ''1y'' monitor_state0 world0
     = (Inr Continue,
        \<lparr>last_update = Some 0, last_data_count = Some 1\<rparr>,
        \<lparr>n_history = 3, n_now = 1, n_sleep = 1, n_input = 0,
         stdout = [NewDataUpdate 0, CorrelationLine ''AAA'' ''BBB'' NaN,
                   TimeframeLine ''1d'', PeriodLine ''1y'']\<rparr>)"
  by (simp add: iteration_def try_body_def report_def calculate_correlation_def
        get_stock_data_def getitem_Close_def concat_inner_def corr_columns_def column1_def
        column2_def Series_corr_def should_report_def datetime_now_def time_sleep_def print_def
        monitor_state0_def world0_def env_of_def Close_frame_def answer_disjoint_def Let_def)

text \<open>
  C1, amended. For two distinct symbols whose fetches succeed and align, whatever the
  aligned rows are, a column of zero variance included, \<^verbatim>\<open>calculate_correlation\<close>
  returns the float that \<^verbatim>\<open>corr\<close> computed and not an error; with fewer than two aligned
  rows that float is NaN. The monitor's report, run on it, prints the four lines of a
  successful report with that float as the coefficient, prints no error line, and stores
  the time and the count.
\<close>

theorem nan_is_reported:
  assumes "fst (get_stock_data E symbol1 timeframe period w) = Inr a"
    and "fst (get_stock_data E symbol2 timeframe period (w\<lparr>n_history := Suc (n_history w)\<rparr>)) = Inr b"
    and "concat_inner a b = Inr c"
    and "symbol1 \<noteq> symbol2"
  shows "fst (calculate_correlation E symbol1 symbol2 timeframe period w)
           = Inr (Float (Series_corr E (column1 c) (column2 c)))
         \<and> (length c < 2 \<longrightarrow> Series_corr E (column1 c) (column2 c) = NaN)
         \<and> report E symbol1 symbol2 timeframe period current_time current_count st w
             = (Inr (),
                \<lparr>last_update = Some current_time, last_data_count = Some current_count\<rparr>,
                w\<lparr>n_history := Suc (Suc (n_history w)),
                  stdout := stdout w @
                    [NewDataUpdate current_time,
                     CorrelationLine symbol1 symbol2 (Series_corr E (column1 c) (column2 c)),
                     TimeframeLine timeframe,
                     (if timeframe \<in> set [''1d'', ''1wk'', ''1mo'']
                      then PeriodLine period else PeriodAutomatic)]\<rparr>)"
proof -
  have cc: "calculate_correlation E symbol1 symbol2 timeframe period w
           = (Inr (Float (Series_corr E (column1 c) (column2 c))),
              w\<lparr>n_history := Suc (Suc (n_history w))\<rparr>)"
    by (rule calculate_correlation_float [OF assms])
  have short: "length c < 2 \<longrightarrow> Series_corr E (column1 c) (column2 c) = NaN"
    by (simp add: Series_corr_short column1_def)
  have rp: "report E symbol1 symbol2 timeframe period current_time current_count st w
             = (Inr (),
                \<lparr>last_update = Some current_time, last_data_count = Some current_count\<rparr>,
                w\<lparr>n_history := Suc (Suc (n_history w)),
                  stdout := stdout w @
                    [NewDataUpdate current_time,
                     CorrelationLine symbol1 symbol2 (Series_corr E (column1 c) (column2 c)),
                     TimeframeLine timeframe,
                     (if timeframe \<in> set [''1d'', ''1wk'', ''1mo'']
                      then PeriodLine period else PeriodAutomatic)]\<rparr>)"
    by (simp add: cc report_def print_def Let_def)
  show ?thesis using cc short rp by simp
qed

theorem nan_is_reported_witness:
  "report (env_of answer_one_shared) ''AAA'' ''BBB'' ''5m'' ''1y'' 7 2 monitor_state0 world0
     = (Inr (),
        \<lparr>last_update = Some 7, last_data_count = Some 2\<rparr>,
        \<lparr>n_history = 2, n_now = 0, n_sleep = 0, n_input = 0,
         stdout = [NewDataUpdate 7, CorrelationLine ''AAA'' ''BBB'' NaN,
                   TimeframeLine ''5m'', PeriodAutomatic]\<rparr>)"
proof -
  have a: "fst (get_stock_data (env_of answer_one_shared) ''AAA'' ''5m'' ''1y'' world0)
             = Inr [(1, Finite 10), (2, Finite 11)]"
    by (simp add: get_stock_data_def env_of_def answer_one_shared_def Close_frame_def
          getitem_Close_def Let_def)
  have b: "fst (get_stock_data (env_of answer_one_shared) ''BBB'' ''5m'' ''1y''
                  (world0\<lparr>n_history := Suc (n_history world0)\<rparr>))
             = Inr [(2, Finite 20), (3, Finite 21)]"
    by (simp add: get_stock_data_def env_of_def answer_one_shared_def Close_frame_def
          getitem_Close_def Let_def)
  have c: "concat_inner [(1, Finite 10), (2, Finite 11)] [(2, Finite 20), (3, Finite 21)]
             = Inr [(2, Finite 11, Finite 20)]"
    by (simp add: concat_inner_def)
  have d: "''AAA'' \<noteq> ''BBB''" by simp
  show ?thesis
    using nan_is_reported [OF a b c d, of 7 2 monitor_state0]
    by (simp add: world0_def)
qed

section \<open>Properties of one turn of the loop\<close>

lemma calculate_correlation_n_history:
  "Suc (n_history w) \<le> n_history (snd (calculate_correlation E symbol1 symbol2 timeframe period w))"
proof -
  let ?w1 = "w\<lparr>n_history := Suc (n_history w)\<rparr>"
  obtain r1 where g1: "get_stock_data E symbol1 timeframe period w = (r1, ?w1)"
    using get_stock_data_pair by blast
  obtain r2 where g2: "get_stock_data E symbol2 timeframe period ?w1
                         = (r2, ?w1\<lparr>n_history := Suc (n_history ?w1)\<rparr>)"
    using get_stock_data_pair by blast
  show ?thesis
    by (simp add: calculate_correlation_def g1 g2 split: sum.splits)
qed

lemma report_cases:
  "report E symbol1 symbol2 timeframe period t n st w =
     (let r = calculate_correlation E symbol1 symbol2 timeframe period w in
      case fst r of
        Inl e \<Rightarrow> (Inl e, st, snd r)
      | Inr (Str m) \<Rightarrow> (Inr (), st, (snd r)\<lparr>stdout := stdout (snd r) @ [ErrorAt t (Str m)]\<rparr>)
      | Inr (Float f) \<Rightarrow>
          (Inr (), \<lparr>last_update = Some t, last_data_count = Some n\<rparr>,
           (snd r)\<lparr>stdout := stdout (snd r) @
              [NewDataUpdate t, CorrelationLine symbol1 symbol2 f, TimeframeLine timeframe,
               (if timeframe \<in> set [''1d'', ''1wk'', ''1mo'']
                then PeriodLine period else PeriodAutomatic)]\<rparr>))"
  by (cases "calculate_correlation E symbol1 symbol2 timeframe period w")
     (simp add: report_def print_def Let_def split: sum.splits pyval.splits)

lemma report_n_history:
  "Suc (n_history w) \<le> n_history (snd (snd (report E symbol1 symbol2 timeframe period t n st w)))"
proof -
  let ?r = "calculate_correlation E symbol1 symbol2 timeframe period w"
  have "n_history (snd (snd (report E symbol1 symbol2 timeframe period t n st w)))
          = n_history (snd ?r)"
    by (simp add: report_cases Let_def split: sum.splits pyval.splits split del: if_split)
  then show ?thesis
    using calculate_correlation_n_history [of w E symbol1 symbol2 timeframe period] by simp
qed

lemma iteration_fetched:
  assumes "fst (get_stock_data E symbol1 timeframe period w) = Inr s"
  shows "iteration E symbol1 symbol2 timeframe period st w =
     (if should_report st (now E (n_now w)) (length s)
      then (case report E symbol1 symbol2 timeframe period (now E (n_now w)) (length s) st
                   (after_fetch w) of
              (Inl e, st', w3) \<Rightarrow>
                 (if e = KeyboardInterrupt
                  then (Inr Break, st', w3\<lparr>stdout := stdout w3 @ [MonitoringStopped]\<rparr>)
                  else (case time_sleep E
                               (w3\<lparr>n_now := Suc (n_now w3),
                                   stdout := stdout w3 @ [UnexpectedErrorAt (now E (n_now w3)) (str_exn e)]\<rparr>) of
                          (Inl e', w4) \<Rightarrow> (Inl e', st', w4)
                        | (Inr u, w4) \<Rightarrow> (Inr Continue, st', w4)))
            | (Inr u, st', w3) \<Rightarrow> finish E st' w3)
      else finish E st (after_fetch w))"
proof -
  have g1: "get_stock_data E symbol1 timeframe period w = (Inr s, w\<lparr>n_history := Suc (n_history w)\<rparr>)"
    using assms get_stock_data_pair [of E symbol1 timeframe period w] by simp
  show ?thesis
    by (simp add: iteration_def try_body_def g1 datetime_now_def time_sleep_def print_def
          finish_def after_fetch_def is_Exception_iff Let_def split: prod.splits sum.splits)
qed


lemma calculate_correlation_world:
  "snd (calculate_correlation E symbol1 symbol2 timeframe period w)
     = w\<lparr>n_history := n_history (snd (calculate_correlation E symbol1 symbol2 timeframe period w))\<rparr>"
proof -
  let ?w1 = "w\<lparr>n_history := Suc (n_history w)\<rparr>"
  obtain r1 where g1: "get_stock_data E symbol1 timeframe period w = (r1, ?w1)"
    using get_stock_data_pair by blast
  obtain r2 where g2: "get_stock_data E symbol2 timeframe period ?w1
                         = (r2, ?w1\<lparr>n_history := Suc (n_history ?w1)\<rparr>)"
    using get_stock_data_pair by blast
  show ?thesis
    by (simp add: calculate_correlation_def g1 g2 split: sum.splits)
qed

lemma calculate_correlation_only_interrupt:
  "fst (calculate_correlation E symbol1 symbol2 timeframe period w) = Inl e \<Longrightarrow> e = KeyboardInterrupt"
proof -
  let ?w1 = "w\<lparr>n_history := Suc (n_history w)\<rparr>"
  obtain r1 where g1: "get_stock_data E symbol1 timeframe period w = (r1, ?w1)"
    using get_stock_data_pair by blast
  obtain r2 where g2: "get_stock_data E symbol2 timeframe period ?w1
                         = (r2, ?w1\<lparr>n_history := Suc (n_history ?w1)\<rparr>)"
    using get_stock_data_pair by blast
  show "fst (calculate_correlation E symbol1 symbol2 timeframe period w) = Inl e \<Longrightarrow> e = KeyboardInterrupt"
    by (auto simp: calculate_correlation_def g1 g2 except_Exception_cases
             split: sum.splits if_splits)
qed

text \<open>One turn in which the gate is open, by the three outcomes of the correlation.\<close>

lemma iteration_gate_open:
  assumes "fst (get_stock_data E symbol1 timeframe period w) = Inr s"
    and "should_report st (now E (n_now w)) (length s)"
  shows "iteration E symbol1 symbol2 timeframe period st w =
     (let r = calculate_correlation E symbol1 symbol2 timeframe period (after_fetch w);
          t = now E (n_now w)
      in case fst r of
           Inl e \<Rightarrow> (Inr Break, st, (snd r)\<lparr>stdout := stdout w @ [MonitoringStopped]\<rparr>)
         | Inr (Str m) \<Rightarrow> finish E st ((snd r)\<lparr>stdout := stdout w @ [ErrorAt t (Str m)]\<rparr>)
         | Inr (Float f) \<Rightarrow>
             finish E \<lparr>last_update = Some t, last_data_count = Some (length s)\<rparr>
               ((snd r)\<lparr>stdout := stdout w @
                  [NewDataUpdate t, CorrelationLine symbol1 symbol2 f, TimeframeLine timeframe,
                   (if timeframe \<in> set [''1d'', ''1wk'', ''1mo'']
                    then PeriodLine period else PeriodAutomatic)]\<rparr>))"
proof -
  let ?r = "calculate_correlation E symbol1 symbol2 timeframe period (after_fetch w)"
  have so: "stdout (snd ?r) = stdout w"
    using calculate_correlation_world [of E symbol1 symbol2 timeframe period "after_fetch w"]
    by (metis (no_types, lifting) after_fetch_def world.select_convs(5) world.surjective
          world.update_convs(1) world.update_convs(2))
  show ?thesis
  proof (cases "fst ?r")
    case (Inl e)
    then have "e = KeyboardInterrupt"
      by (rule calculate_correlation_only_interrupt)
    with Inl show ?thesis
      by (simp add: iteration_fetched [OF assms(1)] assms(2) report_cases Let_def so)
  next
    case (Inr v)
    then show ?thesis
      by (cases v)
         (simp_all add: iteration_fetched [OF assms(1)] assms(2) report_cases Let_def so
            split del: if_split)
  qed
qed


lemma calculate_correlation_frame:
  "stdout (snd (calculate_correlation E symbol1 symbol2 timeframe period w)) = stdout w
   \<and> n_sleep (snd (calculate_correlation E symbol1 symbol2 timeframe period w)) = n_sleep w
   \<and> n_now (snd (calculate_correlation E symbol1 symbol2 timeframe period w)) = n_now w"
proof -
  let ?r = "calculate_correlation E symbol1 symbol2 timeframe period w"
  have "snd ?r = w\<lparr>n_history := n_history (snd ?r)\<rparr>"
    by (rule calculate_correlation_world)
  then obtain k where "snd ?r = w\<lparr>n_history := k\<rparr>" ..
  then show ?thesis by simp
qed

lemma finish_fields:
  "fst (snd (finish E st w)) = st
   \<and> n_history (snd (snd (finish E st w))) = n_history w
   \<and> stdout (snd (snd (finish E st w)))
       = stdout w @ (if sleep_interrupted E (n_sleep w) then [MonitoringStopped] else [])"
  by (simp add: finish_def)




lemma iteration_state:
  "fst (snd (iteration E symbol1 symbol2 timeframe period st w)) = st
   \<or> (\<exists>s f. fst (get_stock_data E symbol1 timeframe period w) = Inr s
         \<and> should_report st (now E (n_now w)) (length s)
         \<and> fst (calculate_correlation E symbol1 symbol2 timeframe period
                  (w\<lparr>n_history := Suc (n_history w), n_now := Suc (n_now w)\<rparr>)) = Inr (Float f)
         \<and> fst (snd (iteration E symbol1 symbol2 timeframe period st w))
             = \<lparr>last_update = Some (now E (n_now w)), last_data_count = Some (length s)\<rparr>)"
proof (cases "fst (get_stock_data E symbol1 timeframe period w)")
  case (Inl e)
  then have g1: "get_stock_data E symbol1 timeframe period w = (Inl e, w\<lparr>n_history := Suc (n_history w)\<rparr>)"
    using get_stock_data_pair [of E symbol1 timeframe period w] by simp
  show ?thesis
    by (simp add: iteration_def try_body_def g1 datetime_now_def time_sleep_def
          is_Exception_iff Let_def split: prod.splits sum.splits)
next
  case (Inr s)
  show ?thesis
  proof (cases "should_report st (now E (n_now w)) (length s)")
    case False
    then show ?thesis by (simp add: iteration_fetched [OF Inr] finish_fields)
  next
    case True
    let ?r = "calculate_correlation E symbol1 symbol2 timeframe period (after_fetch w)"
    show ?thesis
    proof (cases "fst ?r")
      case (Inl e)
      then show ?thesis by (simp add: iteration_gate_open [OF Inr True] Let_def)
    next
      case v: (Inr v)
      show ?thesis
      proof (cases v)
        case (Str m)
        with v show ?thesis
          by (simp add: iteration_gate_open [OF Inr True] Let_def finish_fields)
      next
        case (Float f)
        with v have "fst (snd (iteration E symbol1 symbol2 timeframe period st w))
             = \<lparr>last_update = Some (now E (n_now w)), last_data_count = Some (length s)\<rparr>"
          by (simp add: iteration_gate_open [OF Inr True] Let_def finish_fields split del: if_split)
        with v Float Inr True show ?thesis
          by (auto simp: after_fetch_def)
      qed
    qed
  qed
qed

text \<open>
  C4, as the claim states it, fails. A result that is not a number, NaN, is not treated as
  an error: two series that share one timestamp align to one row, the correlation is NaN,
  and the turn, whose gate is open, prints a report and no error line and replaces both
  \<^verbatim>\<open>last_update\<close> and \<^verbatim>\<open>last_data_count\<close>.
\<close>

theorem nan_updates_state_counterexample:
  "fst (calculate_correlation (env_of answer_one_shared) ''AAA'' ''BBB'' ''1d'' ''1y''
          \<lparr>n_history = 1, n_now = 1, n_sleep = 0, n_input = 0, stdout = []\<rparr>)
     = Inr (Float NaN)
   \<and> iteration (env_of answer_one_shared) ''AAA'' ''BBB'' ''1d'' ''1y''
         \<lparr>last_update = Some (- 100), last_data_count = Some 1\<rparr> world0
       = (Inr Continue,
          \<lparr>last_update = Some 0, last_data_count = Some 2\<rparr>,
          \<lparr>n_history = 3, n_now = 1, n_sleep = 1, n_input = 0,
           stdout = [NewDataUpdate 0, CorrelationLine ''AAA'' ''BBB'' NaN,
                     TimeframeLine ''1d'', PeriodLine ''1y'']\<rparr>)"
  by (simp add: iteration_def try_body_def report_def calculate_correlation_def
        get_stock_data_def getitem_Close_def concat_inner_def corr_columns_def column1_def
        column2_def Series_corr_def should_report_def datetime_now_def time_sleep_def print_def
        world0_def env_of_def Close_frame_def answer_one_shared_def Let_def)

text \<open>
  C4, amended. In a turn whose gate is open, an error text returned by the correlation is
  printed as one error line carrying the time of the turn, and both \<^verbatim>\<open>last_update\<close>
  and \<^verbatim>\<open>last_data_count\<close> stay as they were. Every float counts as a success, NaN
  included: the turn prints the four lines of a report with that float and no error line
  and stores the time and the count of the turn together. A turn that changes the state
  at all is one whose gate was open and whose correlation was a float.
\<close>

theorem state_updated_on_float_only:
  "(\<forall>s m. fst (get_stock_data E symbol1 timeframe period w) = Inr s
        \<and> should_report st (now E (n_now w)) (length s)
        \<and> fst (calculate_correlation E symbol1 symbol2 timeframe period
                 (w\<lparr>n_history := Suc (n_history w), n_now := Suc (n_now w)\<rparr>)) = Inr (Str m)
      \<longrightarrow> fst (snd (iteration E symbol1 symbol2 timeframe period st w)) = st
          \<and> stdout (snd (snd (iteration E symbol1 symbol2 timeframe period st w)))
              = stdout w @ [ErrorAt (now E (n_now w)) (Str m)]
                  @ (if sleep_interrupted E (n_sleep w) then [MonitoringStopped] else []))
   \<and> (\<forall>s f. fst (get_stock_data E symbol1 timeframe period w) = Inr s
        \<and> should_report st (now E (n_now w)) (length s)
        \<and> fst (calculate_correlation E symbol1 symbol2 timeframe period
                 (w\<lparr>n_history := Suc (n_history w), n_now := Suc (n_now w)\<rparr>)) = Inr (Float f)
      \<longrightarrow> fst (snd (iteration E symbol1 symbol2 timeframe period st w))
            = \<lparr>last_update = Some (now E (n_now w)), last_data_count = Some (length s)\<rparr>
          \<and> stdout (snd (snd (iteration E symbol1 symbol2 timeframe period st w)))
              = stdout w @
                  [NewDataUpdate (now E (n_now w)),
                   CorrelationLine symbol1 symbol2 f,
                   TimeframeLine timeframe,
                   (if timeframe \<in> set [''1d'', ''1wk'', ''1mo'']
                    then PeriodLine period else PeriodAutomatic)]
                  @ (if sleep_interrupted E (n_sleep w) then [MonitoringStopped] else []))
   \<and> (fst (snd (iteration E symbol1 symbol2 timeframe period st w)) \<noteq> st
      \<longrightarrow> (\<exists>s f. fst (get_stock_data E symbol1 timeframe period w) = Inr s
             \<and> should_report st (now E (n_now w)) (length s)
             \<and> fst (calculate_correlation E symbol1 symbol2 timeframe period
                      (w\<lparr>n_history := Suc (n_history w), n_now := Suc (n_now w)\<rparr>)) = Inr (Float f)
             \<and> fst (snd (iteration E symbol1 symbol2 timeframe period st w))
                 = \<lparr>last_update = Some (now E (n_now w)), last_data_count = Some (length s)\<rparr>))"
proof -
  let ?it = "iteration E symbol1 symbol2 timeframe period st w"
  let ?r = "calculate_correlation E symbol1 symbol2 timeframe period (after_fetch w)"
  have af: "w\<lparr>n_history := Suc (n_history w), n_now := Suc (n_now w)\<rparr> = after_fetch w"
    by (simp add: after_fetch_def)
  have fr: "n_sleep (snd ?r) = n_sleep w"
    using calculate_correlation_frame [of E symbol1 symbol2 timeframe period "after_fetch w"]
    by (simp add: after_fetch_def)
  have p1: "fst (snd ?it) = st
          \<and> stdout (snd (snd ?it))
              = stdout w @ [ErrorAt (now E (n_now w)) (Str m)]
                  @ (if sleep_interrupted E (n_sleep w) then [MonitoringStopped] else [])"
    if "fst (get_stock_data E symbol1 timeframe period w) = Inr s"
      and "should_report st (now E (n_now w)) (length s)"
      and "fst ?r = Inr (Str m)" for s m
    using that(3) by (simp add: iteration_gate_open [OF that(1,2)] Let_def finish_fields fr)
  have p2: "fst (snd ?it) = \<lparr>last_update = Some (now E (n_now w)), last_data_count = Some (length s)\<rparr>
          \<and> stdout (snd (snd ?it))
              = stdout w @
                  [NewDataUpdate (now E (n_now w)),
                   CorrelationLine symbol1 symbol2 f,
                   TimeframeLine timeframe,
                   (if timeframe \<in> set [''1d'', ''1wk'', ''1mo'']
                    then PeriodLine period else PeriodAutomatic)]
                  @ (if sleep_interrupted E (n_sleep w) then [MonitoringStopped] else [])"
    if "fst (get_stock_data E symbol1 timeframe period w) = Inr s"
      and "should_report st (now E (n_now w)) (length s)"
      and "fst ?r = Inr (Float f)" for s f
    using that(3)
    by (simp add: iteration_gate_open [OF that(1,2)] Let_def finish_fields fr
          split del: if_split)
  have p3: "fst (snd ?it) \<noteq> st
      \<longrightarrow> (\<exists>s f. fst (get_stock_data E symbol1 timeframe period w) = Inr s
             \<and> should_report st (now E (n_now w)) (length s)
             \<and> fst ?r = Inr (Float f)
             \<and> fst (snd ?it)
                 = \<lparr>last_update = Some (now E (n_now w)), last_data_count = Some (length s)\<rparr>)"
    using iteration_state [of E symbol1 symbol2 timeframe period st w] unfolding af by blast
  show ?thesis
    unfolding af using p1 p2 p3 by blast
qed

theorem state_updated_on_float_only_witness:
  "fst (snd (iteration (env_of answer_second_fails) ''AAA'' ''BBB'' ''1d'' ''1y'' monitor_state0 world0))
     = monitor_state0
   \<and> stdout (snd (snd (iteration (env_of answer_second_fails) ''AAA'' ''BBB'' ''1d'' ''1y''
                          monitor_state0 world0)))
       = [ErrorAt 0 (Str ''Error: network unreachable'')]
   \<and> fst (snd (iteration (env_of answer_two_shared) ''AAA'' ''BBB'' ''1h'' ''1y'' monitor_state0 world0))
       = \<lparr>last_update = Some 0, last_data_count = Some 2\<rparr>
   \<and> stdout (snd (snd (iteration (env_of answer_two_shared) ''AAA'' ''BBB'' ''1h'' ''1y''
                          monitor_state0 world0)))
       = [NewDataUpdate 0, CorrelationLine ''AAA'' ''BBB'' (Finite (1 / 2)),
          TimeframeLine ''1h'', PeriodAutomatic]"
proof -
  have f: "fst (get_stock_data (env_of answer_second_fails) ''AAA'' ''1d'' ''1y'' world0)
             = Inr [(1, Finite 10)]"
    by (simp add: get_stock_data_def env_of_def answer_second_fails_def Close_frame_def
          getitem_Close_def Let_def)
  have g: "should_report monitor_state0 (now (env_of answer_second_fails) (n_now world0))
             (length [(1::int, Finite 10)])"
    by (simp add: should_report_def monitor_state0_def)
  have c: "fst (calculate_correlation (env_of answer_second_fails) ''AAA'' ''BBB'' ''1d'' ''1y''
                 (world0\<lparr>n_history := Suc (n_history world0), n_now := Suc (n_now world0)\<rparr>))
             = Inr (Str ''Error: network unreachable'')"
    by (simp add: calculate_correlation_def get_stock_data_def env_of_def answer_second_fails_def
          Close_frame_def getitem_Close_def except_Exception_def Let_def)
  have f2: "fst (get_stock_data (env_of answer_two_shared) ''AAA'' ''1h'' ''1y'' world0)
             = Inr [(1, Finite 10), (2, Finite 11)]"
    by (simp add: get_stock_data_def env_of_def answer_two_shared_def Close_frame_def
          getitem_Close_def Let_def)
  have g2: "should_report monitor_state0 (now (env_of answer_two_shared) (n_now world0))
              (length [(1::int, Finite 10), (2, Finite 11)])"
    by (simp add: should_report_def monitor_state0_def)
  have c2: "fst (calculate_correlation (env_of answer_two_shared) ''AAA'' ''BBB'' ''1h'' ''1y''
                 (world0\<lparr>n_history := Suc (n_history world0), n_now := Suc (n_now world0)\<rparr>))
             = Inr (Float (Finite (1 / 2)))"
    by (simp add: calculate_correlation_def get_stock_data_def env_of_def answer_two_shared_def
          Close_frame_def getitem_Close_def concat_inner_def corr_columns_def column1_def
          column2_def Series_corr_def notna_def Let_def)
  let ?E1 = "env_of answer_second_fails"
  let ?it1 = "iteration ?E1 ''AAA'' ''BBB'' ''1d'' ''1y'' monitor_state0 world0"
  have raw1: "fst (snd ?it1) = monitor_state0
          \<and> stdout (snd (snd ?it1))
              = stdout world0 @ [ErrorAt (now ?E1 (n_now world0)) (Str ''Error: network unreachable'')]
                  @ (if sleep_interrupted ?E1 (n_sleep world0) then [MonitoringStopped] else [])"
    using f g c
      state_updated_on_float_only [of ?E1 "''AAA''" "''1d''" "''1y''" world0 monitor_state0 "''BBB''"]
    by blast
  have vals1: "now ?E1 (n_now world0) = 0" "\<not> sleep_interrupted ?E1 (n_sleep world0)"
    "stdout world0 = []"
    by (simp_all add: env_of_def world0_def)
  have one: "fst (snd ?it1) = monitor_state0
          \<and> stdout (snd (snd ?it1)) = [ErrorAt 0 (Str ''Error: network unreachable'')]"
    using raw1 vals1 by simp
  let ?E2 = "env_of answer_two_shared"
  let ?it2 = "iteration ?E2 ''AAA'' ''BBB'' ''1h'' ''1y'' monitor_state0 world0"
  have raw2: "fst (snd ?it2)
            = \<lparr>last_update = Some (now ?E2 (n_now world0)),
               last_data_count = Some (length [(1::int, Finite 10), (2, Finite 11)])\<rparr>
          \<and> stdout (snd (snd ?it2))
              = stdout world0 @
                  [NewDataUpdate (now ?E2 (n_now world0)),
                   CorrelationLine ''AAA'' ''BBB'' (Finite (1 / 2)),
                   TimeframeLine ''1h'',
                   (if ''1h'' \<in> set [''1d'', ''1wk'', ''1mo'']
                    then PeriodLine ''1y'' else PeriodAutomatic)]
                  @ (if sleep_interrupted ?E2 (n_sleep world0) then [MonitoringStopped] else [])"
    using f2 g2 c2
      state_updated_on_float_only [of ?E2 "''AAA''" "''1h''" "''1y''" world0 monitor_state0 "''BBB''"]
    by blast
  have vals2: "now ?E2 (n_now world0) = 0" "\<not> sleep_interrupted ?E2 (n_sleep world0)"
    by (simp_all add: env_of_def world0_def)
  have two: "fst (snd ?it2) = \<lparr>last_update = Some 0, last_data_count = Some 2\<rparr>
          \<and> stdout (snd (snd ?it2))
              = [NewDataUpdate 0, CorrelationLine ''AAA'' ''BBB'' (Finite (1 / 2)),
                 TimeframeLine ''1h'', PeriodAutomatic]"
    using raw2 vals2 vals1(3) by simp
  show ?thesis using one two by simp
qed

section \<open>The invariant of the monitor's state\<close>

lemma iteration_both_or_neither:
  "both_or_neither st \<Longrightarrow>
   both_or_neither (fst (snd (iteration E symbol1 symbol2 timeframe period st w)))"
  using iteration_state [of E symbol1 symbol2 timeframe period st w]
  by (auto simp: both_or_neither_def)

lemma monitor_loop_both_or_neither:
  "both_or_neither st \<Longrightarrow>
   both_or_neither (fst (snd (monitor_loop fuel E symbol1 symbol2 timeframe period st w)))"
proof (induction fuel arbitrary: st w)
  case 0
  then show ?case by simp
next
  case (Suc fuel)
  obtain r st' w' where it: "iteration E symbol1 symbol2 timeframe period st w = (r, st', w')"
    by (cases "iteration E symbol1 symbol2 timeframe period st w") auto
  have inv: "both_or_neither st'"
    using iteration_both_or_neither [OF Suc.prems, of E symbol1 symbol2 timeframe period w] it
    by simp
  show ?case
  proof (cases r)
    case (Inl e)
    with it inv show ?thesis by simp
  next
    case (Inr c)
    with it inv Suc.IH [OF inv] show ?thesis by (cases c) simp_all
  qed
qed

text \<open>
  C10. After any number of turns of \<^verbatim>\<open>continuous_monitor\<close>, whatever the provider, the
  clock and the operator do, \<^verbatim>\<open>last_update\<close> and \<^verbatim>\<open>last_data_count\<close> are both unset
  or both set.
\<close>

theorem monitor_state_both_or_neither:
  "(last_update (fst (snd (continuous_monitor fuel E symbol1 symbol2 timeframe period w))) = None)
   \<longleftrightarrow>
   (last_data_count (fst (snd (continuous_monitor fuel E symbol1 symbol2 timeframe period w))) = None)"
proof -
  have "both_or_neither (fst (snd (continuous_monitor fuel E symbol1 symbol2 timeframe period w)))"
    unfolding continuous_monitor_def
    by (rule monitor_loop_both_or_neither) (simp add: both_or_neither_def monitor_state0_def)
  then show ?thesis by (simp add: both_or_neither_def)
qed

section \<open>Equal symbols\<close>

text \<open>
  C6 at equal symbols. Asked to correlate a symbol with itself,
  \<^verbatim>\<open>calculate_correlation\<close> returns no coefficient: the two columns of the aligned frame
  carry one name, the selection by that name is a frame, and the call of \<^verbatim>\<open>corr\<close> fails
  with a \<^verbatim>\<open>TypeError\<close> whose text is returned. The series here has three different
  prices and aligns with itself to three rows.
\<close>

theorem same_symbol_error:
  "fst (calculate_correlation (env_of answer_three) ''AAPL'' ''AAPL'' ''1d'' ''1y'' world0)
     = Inr (Str (''Error: DataFrame.corr() got multiple values for argument ''
                 @ quoted ''method''))
   \<and> concat_inner [(1, Finite 10), (2, Finite 11), (3, Finite 13)]
                  [(1, Finite 10), (2, Finite 11), (3, Finite 13)]
       = Inr [(1, Finite 10, Finite 10), (2, Finite 11, Finite 11), (3, Finite 13, Finite 13)]"
  by (simp add: calculate_correlation_def get_stock_data_def getitem_Close_def concat_inner_def
        corr_columns_def TypeError_corr_def except_Exception_def env_of_def answer_three_def
        Close_frame_def world0_def quoted_def Let_def)

section \<open>Leaving the program\<close>

text \<open>
  C8 at a missing \<^verbatim>\<open>yfinance\<close>. The \<^verbatim>\<open>import\<close> of line 1 fails before the guarded
  block of lines 129 to 135 is reached: the process ends with the traceback of an
  \<^verbatim>\<open>ImportError\<close>, and nothing has been printed, the two lines of install guidance
  included. The loop is not entered.
\<close>

theorem missing_yfinance_traceback:
  "script yfinance_missing fuel E
     = (Some (Traceback (ImportError (''No module named '' @ quoted ''yfinance''))), world0)
   \<and> stdout (snd (script yfinance_missing fuel E)) = []"
  by (simp add: script_def yfinance_missing_def world0_def)

text \<open>
  An interrupt that arrives inside the \<^verbatim>\<open>try\<close> body, during a fetch or during the
  sleep of line 87, is caught by the first handler: one stop notice, and the loop is left
  by \<^verbatim>\<open>break\<close>.
\<close>

lemma interrupt_in_try_body_stops:
  assumes "try_body E symbol1 symbol2 timeframe period st w = (Inl KeyboardInterrupt, st', w')"
  shows "monitor_loop (Suc fuel) E symbol1 symbol2 timeframe period st w
           = (Some (Inr ()), st', print MonitoringStopped w')"
  by (simp add: iteration_def assms)

lemma upper_aaa: "upper (strip ''aaa'') = ''AAA''"
  by code_simp

lemma upper_bbb: "upper (strip ''bbb'') = ''BBB''"
  by code_simp

lemma lower_empty: "lower (strip []) = []"
  by code_simp

text \<open>
  C9 at an interrupt during the retry wait. The provider is unreachable, so the first
  fetch raises and the second handler prints the error and sleeps on line 94; Ctrl+C
  during that sleep is raised inside a handler, where the first handler does not apply.
  The interrupt leaves \<^verbatim>\<open>continuous_monitor\<close> and \<^verbatim>\<open>main\<close>, no stop notice is printed,
  and the process ends with the traceback of a \<^verbatim>\<open>KeyboardInterrupt\<close>, not with status 0.
\<close>

theorem interrupted_retry_not_caught:
  "continuous_monitor 1 env_interrupted_retry ''AAA'' ''BBB'' ''1d'' ''1y'' world0
     = (Some (Inl KeyboardInterrupt), monitor_state0,
        \<lparr>n_history = 1, n_now = 1, n_sleep = 1, n_input = 0,
         stdout = [UnexpectedErrorAt 0 ''network unreachable'']\<rparr>)
   \<and> fst (script all_installed 1 env_interrupted_retry) = Some (Traceback KeyboardInterrupt)
   \<and> MonitoringStopped \<notin> set (stdout (snd (script all_installed 1 env_interrupted_retry)))
   \<and> last (stdout (snd (script all_installed 1 env_interrupted_retry)))
       = UnexpectedErrorAt 0 ''network unreachable''"
  by (simp add: script_def guarded_main_def import_module_def all_installed_def
        main_def input_def print_def read_period_def upper_aaa upper_bbb lower_empty
        valid_timeframes_def valid_periods_def
        continuous_monitor_def iteration_def try_body_def get_stock_data_def
        datetime_now_def time_sleep_def env_interrupted_retry_def world0_def Let_def)

end
